theory Spec2Isabelle
  imports Main "HOL-Library.Word" "HOL-Library.AList" "HOL-Library.Multiset"
begin

section \<open>Bytes, text and the two codecs of the wire format\<close>

text \<open>
  A Python \<open>bytes\<close> value is a list of 8-bit words. A Python \<open>str\<close> is a list of code
  points (natural numbers below \<open>0x110000\<close>); \<open>str\<close> turns an ASCII literal of the
  source into such a list.
\<close>

type_synonym byte = "8 word"
type_synonym codepoint = nat
type_synonym ustr = "codepoint list"

definition str :: "string \<Rightarrow> ustr" where
  "str s = map of_char s"

subsection \<open>\<open>struct.pack('!I', n)\<close> and \<open>struct.unpack\<close>\<close>

text \<open>
  \<open>struct.pack('!I', n)\<close> raises \<open>struct.error\<close> unless \<open>0 \<le> n < 2 ^ 32\<close>; the result
  \<open>None\<close> stands for the exception. \<open>struct.unpack('!I', d)\<close> needs exactly four bytes.
\<close>

definition be32 :: "nat \<Rightarrow> byte list" where
  "be32 n = [of_nat (n div 16777216 mod 256), of_nat (n div 65536 mod 256),
             of_nat (n div 256 mod 256), of_nat (n mod 256)]"

definition pack_u32 :: "nat \<Rightarrow> byte list option" where
  "pack_u32 n = (if n < 2 ^ 32 then Some (be32 n) else None)"

fun unpack_u32 :: "byte list \<Rightarrow> nat option" where
  "unpack_u32 [a, b, c, d] =
     Some (unat a * 16777216 + unat b * 65536 + unat c * 256 + unat d)"
| "unpack_u32 _ = None"

text \<open>\<open>struct.unpack('!II', d)\<close>: two big-endian words from exactly eight bytes.\<close>

definition unpack_u32_u32 :: "byte list \<Rightarrow> (nat \<times> nat) option" where
  "unpack_u32_u32 d =
     (if length d = 8
      then (case (unpack_u32 (take 4 d), unpack_u32 (drop 4 d)) of
              (Some a, Some b) \<Rightarrow> Some (a, b)
            | _ \<Rightarrow> None)
      else None)"

definition pack_u32_u32 :: "nat \<Rightarrow> nat \<Rightarrow> byte list option" where
  "pack_u32_u32 a b =
     (case (pack_u32 a, pack_u32 b) of
        (Some x, Some y) \<Rightarrow> Some (x @ y)
      | _ \<Rightarrow> None)"

subsection \<open>\<open>str.encode('utf-8')\<close> and \<open>bytes.decode('utf-8')\<close>\<close>

text \<open>
  Python's strict UTF-8 codec. Encoding raises \<open>UnicodeEncodeError\<close> on a surrogate
  code point (\<open>0xD800\<close> to \<open>0xDFFF\<close>); decoding raises \<open>UnicodeDecodeError\<close> on a stray
  or missing continuation byte, an overlong form, a surrogate and a value above
  \<open>0x10FFFF\<close>. \<open>None\<close> stands for the exception.
\<close>

definition utf8_encode_cp :: "codepoint \<Rightarrow> byte list option" where
  "utf8_encode_cp c =
     (if c < 128 then Some [of_nat c]
      else if c < 2048 then Some [of_nat (192 + c div 64), of_nat (128 + c mod 64)]
      else if c < 65536 then
        (if 55296 \<le> c \<and> c < 57344 then None
         else Some [of_nat (224 + c div 4096), of_nat (128 + c div 64 mod 64),
                    of_nat (128 + c mod 64)])
      else if c < 1114112 then
        Some [of_nat (240 + c div 262144), of_nat (128 + c div 4096 mod 64),
              of_nat (128 + c div 64 mod 64), of_nat (128 + c mod 64)]
      else None)"

fun utf8_encode :: "ustr \<Rightarrow> byte list option" where
  "utf8_encode [] = Some []"
| "utf8_encode (c # cs) =
     (case utf8_encode_cp c of
        None \<Rightarrow> None
      | Some e \<Rightarrow> (case utf8_encode cs of None \<Rightarrow> None | Some es \<Rightarrow> Some (e @ es)))"

definition is_cont :: "byte \<Rightarrow> bool" where
  "is_cont b = (128 \<le> unat b \<and> unat b < 192)"

definition cons_cp :: "codepoint \<Rightarrow> ustr option \<Rightarrow> ustr option" where
  "cons_cp c r = (case r of None \<Rightarrow> None | Some cs \<Rightarrow> Some (c # cs))"

fun utf8_decode :: "byte list \<Rightarrow> ustr option" where
  "utf8_decode [] = Some []"
| "utf8_decode (b0 # bs) =
     (if unat b0 < 128 then cons_cp (unat b0) (utf8_decode bs)
      else if 194 \<le> unat b0 \<and> unat b0 < 224 then
        (case bs of
           b1 # r \<Rightarrow>
             if is_cont b1
             then cons_cp ((unat b0 - 192) * 64 + (unat b1 - 128)) (utf8_decode r)
             else None
         | _ \<Rightarrow> None)
      else if 224 \<le> unat b0 \<and> unat b0 < 240 then
        (case bs of
           b1 # b2 # r \<Rightarrow>
             if is_cont b1 \<and> is_cont b2
             then (let c = (unat b0 - 224) * 4096 + (unat b1 - 128) * 64 + (unat b2 - 128)
                   in if c < 2048 \<or> (55296 \<le> c \<and> c < 57344) then None
                      else cons_cp c (utf8_decode r))
             else None
         | _ \<Rightarrow> None)
      else if 240 \<le> unat b0 \<and> unat b0 < 245 then
        (case bs of
           b1 # b2 # b3 # r \<Rightarrow>
             if is_cont b1 \<and> is_cont b2 \<and> is_cont b3
             then (let c = (unat b0 - 240) * 262144 + (unat b1 - 128) * 4096
                           + (unat b2 - 128) * 64 + (unat b3 - 128)
                   in if c < 65536 \<or> 1114112 \<le> c then None
                      else cons_cp c (utf8_decode r))
             else None
         | _ \<Rightarrow> None)
      else None)"

section \<open>The framed message channel\<close>

subsection \<open>The receiving end of a stream socket\<close>

text \<open>
  The unread data of a connected socket is a list of segments. \<open>sock.recv(n)\<close> returns at
  most \<open>n\<close> bytes of the first segment and never waits for a later one (a short read);
  with nothing left it returns \<open>b''\<close>, the peer having shut the connection down. \<open>Reset\<close>
  is a point of the stream at which \<open>recv\<close> raises (a connection reset, say).
\<close>

datatype segment = Seg "byte list" | Reset

type_synonym stream = "segment list"

fun recv :: "nat \<Rightarrow> stream \<Rightarrow> byte list option \<times> stream" where
  "recv n [] = (Some [], [])"
| "recv n (Reset # rest) = (None, rest)"
| "recv n (Seg bs # rest) =
     (Some (take n bs), if drop n bs = [] then rest else Seg (drop n bs) # rest)"

subsection \<open>\<open>receive_message\<close> (\<open>server.py\<close> 177-197, \<open>client.py\<close> 60-80)\<close>

text \<open>
  The payload loop: \<open>while len(message) < message_len\<close>. An empty chunk returns \<open>None\<close>,
  as does an exception of \<open>recv\<close>, which the enclosing \<open>except\<close> turns into \<open>None\<close>.
\<close>

function recv_payload :: "nat \<Rightarrow> byte list \<Rightarrow> stream \<Rightarrow> byte list option \<times> stream" where
  "recv_payload message_len message s =
     (if length message < message_len
      then (if fst (recv (message_len - length message) s) = None
               \<or> fst (recv (message_len - length message) s) = Some []
            then (None, snd (recv (message_len - length message) s))
            else recv_payload message_len
                   (message @ the (fst (recv (message_len - length message) s)))
                   (snd (recv (message_len - length message) s)))
      else (Some message, s))"
  by pat_completeness auto
termination
proof (relation "measure (\<lambda>(message_len, message, s). message_len - length message)")
  show "wf (measure (\<lambda>(message_len, message, s). message_len - length message))"
    by simp
next
  fix message_len :: nat and message :: "byte list" and s :: stream
  assume lt: "length message < message_len"
    and ne: "\<not> (fst (recv (message_len - length message) s) = None
               \<or> fst (recv (message_len - length message) s) = Some [])"
  then obtain chunk where c: "fst (recv (message_len - length message) s) = Some chunk"
    and cne: "chunk \<noteq> []"
    by (cases "fst (recv (message_len - length message) s)") auto
  from cne c lt
  show "((message_len, message @ the (fst (recv (message_len - length message) s)),
          snd (recv (message_len - length message) s)),
         (message_len, message, s))
        \<in> measure (\<lambda>(message_len, message, s). message_len - length message)"
    by (cases chunk) auto
qed

definition receive_message :: "stream \<Rightarrow> ustr option \<times> stream" where
  "receive_message s =
     (case recv 4 s of
        (None, s1) \<Rightarrow> (None, s1)
      | (Some length_data, s1) \<Rightarrow>
          if length length_data < 4 then (None, s1)
          else (case unpack_u32 length_data of
                  None \<Rightarrow> (None, s1)
                | Some message_len \<Rightarrow>
                    (case recv_payload message_len [] s1 of
                       (None, s2) \<Rightarrow> (None, s2)
                     | (Some message, s2) \<Rightarrow> (utf8_decode message, s2))))"

text \<open>\<open>Client.receive_message\<close> has the same body, on \<open>self.socket\<close>.\<close>

definition client_receive_message :: "stream \<Rightarrow> ustr option \<times> stream" where
  "client_receive_message s = receive_message s"

declare recv_payload.simps [simp del]

section \<open>The server\<close>

subsection \<open>State, environment and exceptions\<close>

text \<open>
  A socket is identified by a number. \<open>self.clients\<close> and \<open>self.groups\<close> are
  dictionaries: association lists in insertion order, read with \<open>map_of\<close>, assigned
  with \<open>AList.update\<close> (in place, or appended when the key is new) and deleted from
  with \<open>AList.delete\<close>. \<open>inbound\<close> is the unread data of every connection,
  \<open>outbound\<close> the byte strings \<open>sendall\<close> has written, in order, and \<open>datagrams\<close> what
  \<open>sendto\<close> has sent, each with its destination.
\<close>

type_synonym sock = nat

record client_info =
  username :: ustr
  address :: "ustr \<times> int"

record server =
  port :: int
  clients :: "(sock \<times> client_info) list"
  groups :: "(ustr \<times> sock list) list"
  inbound :: "sock \<Rightarrow> stream"
  outbound :: "(sock \<times> byte list) list"
  datagrams :: "((ustr \<times> int) \<times> byte list) list"

datatype exn = KeyError | StructError | UnicodeError | OSError | OverflowError

datatype status = Ok | Raised exn

datatype fs_entry = File "byte list" | Directory

text \<open>
  What the operating system and the Python runtime answer: whether a write to a
  connection succeeds, the listing of the shared folder (\<open>None\<close> when \<open>os.listdir\<close>
  raises), what lies at \<open>os.path.join(self.shared_files_path, filename)\<close>, the text
  \<open>str(e)\<close> of an exception, and \<open>str.upper\<close>.
\<close>

record env =
  up :: "sock \<Rightarrow> bool"
  listdir :: "ustr list option"
  path_lookup :: "ustr \<Rightarrow> fs_entry option"
  exn_text :: "exn \<Rightarrow> ustr"
  upper :: "ustr \<Rightarrow> ustr"

subsection \<open>Formatting\<close>

text \<open>The decimal text of an integer in an f-string, and \<open>sep.join(xs)\<close>.\<close>

fun str_of_nat :: "nat \<Rightarrow> ustr" where
  "str_of_nat n = (if n < 10 then [48 + n] else str_of_nat (n div 10) @ [48 + n mod 10])"

declare str_of_nat.simps [simp del]

definition str_of_int :: "int \<Rightarrow> ustr" where
  "str_of_int i = (if i < 0 then 45 # str_of_nat (nat (- i)) else str_of_nat (nat i))"

fun join :: "ustr \<Rightarrow> ustr list \<Rightarrow> ustr" where
  "join sep [] = []"
| "join sep [x] = x"
| "join sep (x # y # ys) = x @ sep @ join sep (y # ys)"

text \<open>
  \<open>str.strip()\<close> removes the white space of \<open>str.isspace\<close> at both ends;
  \<open>s.split(' ', n)\<close> cuts at the first \<open>n\<close> single spaces.
\<close>

definition is_space :: "codepoint \<Rightarrow> bool" where
  "is_space c =
     ((9 \<le> c \<and> c \<le> 13) \<or> (28 \<le> c \<and> c \<le> 32) \<or> c = 133 \<or> c = 160 \<or> c = 5760
      \<or> (8192 \<le> c \<and> c \<le> 8202) \<or> c = 8232 \<or> c = 8233 \<or> c = 8239 \<or> c = 8287
      \<or> c = 12288)"

definition strip :: "ustr \<Rightarrow> ustr" where
  "strip s = rev (dropWhile is_space (rev (dropWhile is_space s)))"

fun split_space :: "nat \<Rightarrow> ustr \<Rightarrow> ustr list" where
  "split_space 0 s = [s]"
| "split_space (Suc n) s =
     (if 32 \<in> set s
      then takeWhile (\<lambda>c. c \<noteq> 32) s # split_space n (tl (dropWhile (\<lambda>c. c \<noteq> 32) s))
      else [s])"

subsection \<open>\<open>send_message\<close> (\<open>server.py\<close> 165-175)\<close>

text \<open>
  \<open>message.encode('utf-8')\<close>, then \<open>struct.pack('!I', message_len)\<close>: the length prefix
  and the payload that \<open>send_message\<close> hands to \<open>sendall\<close>, or the exception raised.
\<close>

definition encode_frame :: "ustr \<Rightarrow> exn + (byte list \<times> byte list)" where
  "encode_frame message =
     (case utf8_encode message of
        None \<Rightarrow> Inl UnicodeError
      | Some message_bytes \<Rightarrow>
          (case pack_u32 (length message_bytes) of
             None \<Rightarrow> Inl StructError
           | Some prefix \<Rightarrow> Inr (prefix, message_bytes)))"

definition sendall :: "env \<Rightarrow> sock \<Rightarrow> byte list \<Rightarrow> server \<Rightarrow> status \<times> server" where
  "sendall e sock bs st =
     (if up e sock then (Ok, st\<lparr>outbound := outbound st @ [(sock, bs)]\<rparr>)
      else (Raised OSError, st))"

definition send_message :: "env \<Rightarrow> sock \<Rightarrow> ustr \<Rightarrow> server \<Rightarrow> status \<times> server" where
  "send_message e sock message st =
     (case encode_frame message of
        Inl x \<Rightarrow> (Raised x, st)
      | Inr (prefix, message_bytes) \<Rightarrow>
          (case sendall e sock prefix st of
             (Raised x, st1) \<Rightarrow> (Raised x, st1)
           | (Ok, st1) \<Rightarrow> sendall e sock message_bytes st1))"

subsection \<open>\<open>remove_client\<close> and \<open>broadcast_message\<close> (\<open>server.py\<close> 382-407, 199-206)\<close>

text \<open>
  The body of the loop over \<open>list(self.groups.keys())\<close> in \<open>remove_client\<close>:
  \<open>list.remove\<close> deletes the first occurrence, and a group left empty is deleted.
  A name of the snapshot is deleted only in its own iteration, so the lookup
  \<open>self.groups[group_name]\<close> finds it.
\<close>

definition remove_from_group :: "sock \<Rightarrow> ustr \<Rightarrow> (ustr \<times> sock list) list \<Rightarrow> (ustr \<times> sock list) list" where
  "remove_from_group sock group_name gs =
     (case map_of gs group_name of
        None \<Rightarrow> gs
      | Some members \<Rightarrow>
          if sock \<in> set members
          then (if remove1 sock members = []
                then AList.delete group_name gs
                else AList.update group_name (remove1 sock members) gs)
          else gs)"

definition remove_from_groups :: "sock \<Rightarrow> (ustr \<times> sock list) list \<Rightarrow> (ustr \<times> sock list) list" where
  "remove_from_groups sock gs = fold (remove_from_group sock) (map fst gs) gs"

text \<open>
  \<open>remove_client\<close> broadcasts the leave notice, and \<open>broadcast_message\<close> calls
  \<open>remove_client\<close> on a failed send. The first argument bounds the depth of these
  nested calls; \<open>None\<close> means that the bound was reached. Neither function raises:
  \<open>broadcast_message\<close> catches everything and \<open>remove_client\<close> only reads keys it
  has checked.
\<close>

fun broadcast_loop :: "nat \<Rightarrow> env \<Rightarrow> ustr \<Rightarrow> sock option \<Rightarrow> sock list \<Rightarrow> server \<Rightarrow> server option"
  and remove_client :: "nat \<Rightarrow> env \<Rightarrow> sock \<Rightarrow> server \<Rightarrow> server option" where
  "broadcast_loop d e message exclude_socket [] st = Some st"
| "broadcast_loop d e message exclude_socket (sock # socks) st =
     (if Some sock \<noteq> exclude_socket
      then (case send_message e sock message st of
              (Ok, st1) \<Rightarrow> broadcast_loop d e message exclude_socket socks st1
            | (Raised x, st1) \<Rightarrow>
                (case remove_client d e sock st1 of
                   None \<Rightarrow> None
                 | Some st2 \<Rightarrow> broadcast_loop d e message exclude_socket socks st2))
      else broadcast_loop d e message exclude_socket socks st)"
| "remove_client 0 e sock st =
     (case map_of (clients st) sock of None \<Rightarrow> Some st | Some info \<Rightarrow> None)"
| "remove_client (Suc d) e sock st =
     (case map_of (clients st) sock of
        None \<Rightarrow> Some st
      | Some info \<Rightarrow>
          (let st1 = st\<lparr>groups := remove_from_groups sock (groups st)\<rparr>;
               st2 = st1\<lparr>clients := AList.delete sock (clients st1)\<rparr>
           in broadcast_loop d e (username info @ str '' has left'') None
                (map fst (clients st2)) st2))"

definition broadcast_message :: "nat \<Rightarrow> env \<Rightarrow> ustr \<Rightarrow> sock option \<Rightarrow> server \<Rightarrow> server option" where
  "broadcast_message d e message exclude_socket st =
     broadcast_loop d e message exclude_socket (map fst (clients st)) st"

subsection \<open>Sequencing with exceptions\<close>

text \<open>
  \<open>and_then r f\<close> runs \<open>f\<close> after a step that returned, and passes an exception on;
  \<open>try_except r h\<close> is \<open>try: ... except Exception as e: h\<close>. A state reached before the
  exception was raised is kept.
\<close>

definition and_then :: "status \<times> server \<Rightarrow> (server \<Rightarrow> status \<times> server) \<Rightarrow> status \<times> server" where
  "and_then r f = (case r of (Ok, st) \<Rightarrow> f st | (Raised x, st) \<Rightarrow> (Raised x, st))"

definition try_except :: "status \<times> server \<Rightarrow> (exn \<Rightarrow> server \<Rightarrow> status \<times> server) \<Rightarrow> status \<times> server" where
  "try_except r h = (case r of (Ok, st) \<Rightarrow> (Ok, st) | (Raised x, st) \<Rightarrow> h x st)"

definition returned :: "server option \<Rightarrow> (status \<times> server) option" where
  "returned r = map_option (Pair Ok) r"

subsection \<open>\<open>unicast_message\<close> (\<open>server.py\<close> 208-222)\<close>

text \<open>
  The loop over \<open>self.clients.items()\<close> stops at the first entry with the target's name
  that is not the excluded socket. A socket object is true, so \<open>if target_socket\<close>
  asks whether one was found. A failed send to the target removes it; a failed
  \<open>not found\<close> reply is raised to the caller.
\<close>

definition find_target :: "ustr \<Rightarrow> sock option \<Rightarrow> (sock \<times> client_info) list \<Rightarrow> sock option" where
  "find_target target_username exclude_socket cs =
     map_option fst
       (find (\<lambda>(sock, info). username info = target_username \<and> Some sock \<noteq> exclude_socket) cs)"

definition unicast_message ::
  "nat \<Rightarrow> env \<Rightarrow> ustr \<Rightarrow> ustr \<Rightarrow> sock option \<Rightarrow> server \<Rightarrow> (status \<times> server) option" where
  "unicast_message d e message target_username exclude_socket st =
     (case find_target target_username exclude_socket (clients st) of
        Some target_socket \<Rightarrow>
          (case send_message e target_socket message st of
             (Ok, st1) \<Rightarrow> Some (Ok, st1)
           | (Raised x, st1) \<Rightarrow> returned (remove_client d e target_socket st1))
      | None \<Rightarrow>
          (case exclude_socket of
             Some sender \<Rightarrow>
               Some (send_message e sender
                       (str ''User '' @ [39] @ target_username @ [39] @ str '' not found'') st)
           | None \<Rightarrow> Some (Ok, st)))"

subsection \<open>\<open>join_group\<close> and \<open>leave_group\<close> (\<open>server.py\<close> 224-252)\<close>

definition members_of :: "(ustr \<times> sock list) list \<Rightarrow> ustr \<Rightarrow> sock list" where
  "members_of gs group_name = (case map_of gs group_name of None \<Rightarrow> [] | Some ms \<Rightarrow> ms)"

definition join_group :: "env \<Rightarrow> sock \<Rightarrow> ustr \<Rightarrow> server \<Rightarrow> status \<times> server" where
  "join_group e sock group_name st =
     (let st1 = (if map_of (groups st) group_name = None
                 then st\<lparr>groups := AList.update group_name [] (groups st)\<rparr> else st)
      in if sock \<notin> set (members_of (groups st1) group_name)
         then (let st2 = st1\<lparr>groups := AList.update group_name
                                  (members_of (groups st1) group_name @ [sock]) (groups st1)\<rparr>
               in case map_of (clients st2) sock of
                    None \<Rightarrow> (Raised KeyError, st2)
                  | Some info \<Rightarrow>
                      send_message e sock (str ''Joined group '' @ [39] @ group_name @ [39]) st2)
         else send_message e sock (str ''Already in group '' @ [39] @ group_name @ [39]) st1)"

text \<open>
  In \<open>leave_group\<close> the member is removed first, the reply is sent next, and the
  empty group is deleted last: an exception of the reply leaves the function before
  the deletion.
\<close>

definition leave_group :: "env \<Rightarrow> sock \<Rightarrow> ustr \<Rightarrow> server \<Rightarrow> status \<times> server" where
  "leave_group e sock group_name st =
     (case map_of (groups st) group_name of
        Some members \<Rightarrow>
          if sock \<in> set members
          then (let st1 = st\<lparr>groups := AList.update group_name (remove1 sock members) (groups st)\<rparr>
                in case map_of (clients st1) sock of
                     None \<Rightarrow> (Raised KeyError, st1)
                   | Some info \<Rightarrow>
                       and_then
                         (send_message e sock (str ''Left group '' @ [39] @ group_name @ [39]) st1)
                         (\<lambda>st2. if members_of (groups st2) group_name = []
                                then (Ok, st2\<lparr>groups := AList.delete group_name (groups st2)\<rparr>)
                                else (Ok, st2)))
          else send_message e sock (str ''Not in group '' @ [39] @ group_name @ [39]) st
      | None \<Rightarrow>
          send_message e sock (str ''Group '' @ [39] @ group_name @ [39] @ str '' does not exist'') st)"

subsection \<open>\<open>send_group_message\<close> (\<open>server.py\<close> 254-265)\<close>

text \<open>
  The \<open>for\<close> loop runs over the member list itself, which \<open>remove_client\<close> shortens
  meanwhile: the iterator is an index \<open>i\<close> into the list as it is now, and stops when
  the index reaches its length. \<open>n\<close> counts the elements the list had at the start, an
  upper bound of the number of rounds.
\<close>

fun group_loop ::
  "nat \<Rightarrow> env \<Rightarrow> ustr \<Rightarrow> ustr \<Rightarrow> sock option \<Rightarrow> nat \<Rightarrow> nat \<Rightarrow> server \<Rightarrow> server option" where
  "group_loop d e message group_name exclude_socket i 0 st = Some st"
| "group_loop d e message group_name exclude_socket i (Suc n) st =
     (if i < length (members_of (groups st) group_name)
      then (if Some (members_of (groups st) group_name ! i) \<noteq> exclude_socket
            then (case send_message e (members_of (groups st) group_name ! i) message st of
                    (Ok, st1) \<Rightarrow> group_loop d e message group_name exclude_socket (i + 1) n st1
                  | (Raised x, st1) \<Rightarrow>
                      (case remove_client d e (members_of (groups st) group_name ! i) st1 of
                         None \<Rightarrow> None
                       | Some st2 \<Rightarrow>
                           group_loop d e message group_name exclude_socket (i + 1) n st2))
            else group_loop d e message group_name exclude_socket (i + 1) n st)
      else Some st)"

definition send_group_message ::
  "nat \<Rightarrow> env \<Rightarrow> ustr \<Rightarrow> ustr \<Rightarrow> sock option \<Rightarrow> server \<Rightarrow> (status \<times> server) option" where
  "send_group_message d e message group_name exclude_socket st =
     (case map_of (groups st) group_name of
        Some members \<Rightarrow>
          returned (group_loop d e message group_name exclude_socket 0 (length members) st)
      | None \<Rightarrow>
          (case exclude_socket of
             Some sender \<Rightarrow>
               Some (send_message e sender
                       (str ''Group '' @ [39] @ group_name @ [39] @ str '' does not exist'') st)
           | None \<Rightarrow> Some (Ok, st)))"

subsection \<open>Listings (\<open>server.py\<close> 267-281, 365-380)\<close>

definition list_files :: "env \<Rightarrow> sock \<Rightarrow> server \<Rightarrow> status \<times> server" where
  "list_files e sock st =
     try_except
       (case listdir e of
          None \<Rightarrow> (Raised OSError, st)
        | Some files \<Rightarrow>
            and_then
              (send_message e sock
                 (str ''Successfully accessed SharedFiles folder. Number of files: ''
                  @ str_of_nat (length files)) st)
              (\<lambda>st1. if files \<noteq> []
                     then send_message e sock
                            (str ''Files in SharedFiles:'' @ [10] @ join [10] files) st1
                     else send_message e sock (str ''SharedFiles folder is empty'') st1))
       (\<lambda>x st1. send_message e sock (str ''Error accessing SharedFiles: '' @ exn_text e x) st1)"

definition list_users :: "env \<Rightarrow> sock \<Rightarrow> server \<Rightarrow> status \<times> server" where
  "list_users e sock st =
     (let usernames = map (\<lambda>(s, info). username info) (clients st)
      in send_message e sock
           (str ''Connected users ('' @ str_of_nat (length usernames) @ str ''): ''
            @ join (str '', '') usernames) st)"

definition list_groups :: "env \<Rightarrow> sock \<Rightarrow> server \<Rightarrow> status \<times> server" where
  "list_groups e sock st =
     (if groups st \<noteq> []
      then send_message e sock
             (join [10]
                (map (\<lambda>(group_name, members).
                        (let member_names =
                               List.map_filter
                                 (\<lambda>s. map_option username (map_of (clients st) s)) members
                         in group_name @ str '' ('' @ str_of_nat (length member_names)
                            @ str '' members): '' @ join (str '', '') member_names))
                   (groups st))) st
      else send_message e sock (str ''No groups exist'') st)"

subsection \<open>File transfer, sender side (\<open>server.py\<close> 283-363)\<close>

text \<open>
  The read loop of \<open>send_file_tcp\<close>: blocks of 4096 bytes, each written as a length
  prefix and the block. The argument \<open>file\<close> is what is still unread.
\<close>

function tcp_chunk_loop :: "env \<Rightarrow> sock \<Rightarrow> byte list \<Rightarrow> server \<Rightarrow> status \<times> server" where
  "tcp_chunk_loop e sock file st =
     (if take 4096 file = [] then (Ok, st)
      else (case pack_u32 (length (take 4096 file)) of
              None \<Rightarrow> (Raised StructError, st)
            | Some prefix \<Rightarrow>
                (case sendall e sock prefix st of
                   (Raised x, st1) \<Rightarrow> (Raised x, st1)
                 | (Ok, st1) \<Rightarrow>
                     (case sendall e sock (take 4096 file) st1 of
                        (Raised x, st2) \<Rightarrow> (Raised x, st2)
                      | (Ok, st2) \<Rightarrow> tcp_chunk_loop e sock (drop 4096 file) st2))))"
  by pat_completeness auto
termination
  by (relation "measure (\<lambda>(e, sock, file, st). length file)") auto

declare tcp_chunk_loop.simps [simp del]

definition send_file_tcp ::
  "env \<Rightarrow> sock \<Rightarrow> byte list \<Rightarrow> ustr \<Rightarrow> nat \<Rightarrow> server \<Rightarrow> status \<times> server" where
  "send_file_tcp e sock file filename file_size st =
     try_except
       (and_then
          (send_message e sock
             (str ''DOWNLOAD_START:'' @ filename @ str '':'' @ str_of_nat file_size) st)
          (\<lambda>st1. and_then (tcp_chunk_loop e sock file st1)
             (\<lambda>st2. send_message e sock
                      (str ''DOWNLOAD_COMPLETE:'' @ filename @ str '':'' @ str_of_nat file_size)
                      st2)))
       (\<lambda>x st1. send_message e sock (str ''ERROR: Failed to send file: '' @ exn_text e x) st1)"

text \<open>
  \<open>udp_socket.sendto(data, (host, udp_port))\<close> raises \<open>OverflowError\<close> for a port outside
  \<open>0..65535\<close>; otherwise the datagram leaves, with no acknowledgement.
\<close>

definition sendto :: "byte list \<Rightarrow> ustr \<times> int \<Rightarrow> server \<Rightarrow> status \<times> server" where
  "sendto d dest st =
     (if 0 \<le> snd dest \<and> snd dest \<le> 65535
      then (Ok, st\<lparr>datagrams := datagrams st @ [(dest, d)]\<rparr>)
      else (Raised OverflowError, st))"

text \<open>
  The read loop of \<open>send_file_udp\<close>, with \<open>chunk_size = 1024\<close>: every datagram is the
  header \<open>struct.pack('!II', chunk_num, len(chunk))\<close> followed by the chunk.
\<close>

function udp_chunk_loop :: "ustr \<times> int \<Rightarrow> nat \<Rightarrow> byte list \<Rightarrow> server \<Rightarrow> status \<times> server" where
  "udp_chunk_loop dest chunk_num file st =
     (if take 1024 file = [] then (Ok, st)
      else (case pack_u32_u32 chunk_num (length (take 1024 file)) of
              None \<Rightarrow> (Raised StructError, st)
            | Some header \<Rightarrow>
                (case sendto (header @ take 1024 file) dest st of
                   (Raised x, st1) \<Rightarrow> (Raised x, st1)
                 | (Ok, st1) \<Rightarrow> udp_chunk_loop dest (chunk_num + 1) (drop 1024 file) st1)))"
  by pat_completeness auto
termination
  by (relation "measure (\<lambda>(dest, chunk_num, file, st). length file)") auto

declare udp_chunk_loop.simps [simp del]

definition send_file_udp ::
  "env \<Rightarrow> sock \<Rightarrow> byte list \<Rightarrow> ustr \<Rightarrow> nat \<Rightarrow> server \<Rightarrow> status \<times> server" where
  "send_file_udp e sock file filename file_size st =
     try_except
       (case map_of (clients st) sock of
          None \<Rightarrow> (Raised KeyError, st)
        | Some info \<Rightarrow>
            and_then
              (send_message e sock
                 (str ''DOWNLOAD_START_UDP:'' @ filename @ str '':'' @ str_of_nat file_size) st)
              (\<lambda>st1. and_then
                 (send_message e sock (str ''UDP_PORT:'' @ str_of_int (port st1 + 1)) st1)
                 (\<lambda>st2. and_then
                    (udp_chunk_loop (fst (address info), port st2 + 1) 0 file st2)
                    (\<lambda>st3. send_message e sock
                             (str ''DOWNLOAD_COMPLETE_UDP:'' @ filename @ str '':''
                              @ str_of_nat file_size) st3))))
       (\<lambda>x st1. send_message e sock
                  (str ''ERROR: Failed to send file via UDP: '' @ exn_text e x) st1)"

text \<open>
  \<open>handle_file_download\<close>: \<open>os.path.exists\<close>, \<open>os.path.isfile\<close> and \<open>os.path.getsize\<close>
  are read off the environment's answer for the path.
\<close>

definition handle_file_download :: "env \<Rightarrow> sock \<Rightarrow> ustr \<Rightarrow> ustr \<Rightarrow> server \<Rightarrow> status \<times> server" where
  "handle_file_download e sock filename protocol st =
     (case path_lookup e filename of
        None \<Rightarrow>
          send_message e sock
            (str ''ERROR: File '' @ [39] @ filename @ [39] @ str '' not found'') st
      | Some Directory \<Rightarrow>
          send_message e sock
            (str ''ERROR: '' @ [39] @ filename @ [39] @ str '' is not a file'') st
      | Some (File file) \<Rightarrow>
          if upper e protocol = str ''TCP''
          then send_file_tcp e sock file filename (length file) st
          else if upper e protocol = str ''UDP''
          then send_file_udp e sock file filename (length file) st
          else send_message e sock
                 (str ''ERROR: Invalid protocol '' @ [39] @ protocol @ [39]
                  @ str ''. Use TCP or UDP'') st)"

subsection \<open>\<open>handle_client_message\<close> (\<open>server.py\<close> 92-163)\<close>

text \<open>
  The body of the \<open>try\<close>, after the message was read and found not empty and the
  sender found registered.
\<close>

definition dispatch :: "nat \<Rightarrow> env \<Rightarrow> sock \<Rightarrow> ustr \<Rightarrow> ustr \<Rightarrow> server \<Rightarrow> (status \<times> server) option" where
  "dispatch d e sock uname message st =
     (let parts = split_space 2 (strip message);
          command = upper e (parts ! 0)
      in if command = str ''/LEAVE'' then returned (remove_client d e sock st)
         else if command = str ''/BROADCAST'' then
           (if length parts > 1
            then returned (broadcast_message d e
                             (str ''[BROADCAST] '' @ uname @ str '': '' @ parts ! 1)
                             (Some sock) st)
            else Some (Ok, st))
         else if command = str ''/UNICAST'' then
           (if length parts \<ge> 3
            then unicast_message d e (str ''[UNICAST] '' @ uname @ str '': '' @ parts ! 2)
                   (parts ! 1) (Some sock) st
            else Some (send_message e sock (str ''Usage: /UNICAST <username> <message>'') st))
         else if command = str ''/JOINGROUP'' then
           (if length parts > 1 then Some (join_group e sock (parts ! 1) st)
            else Some (send_message e sock (str ''Usage: /JOINGROUP <group_name>'') st))
         else if command = str ''/LEAVEGROUP'' then
           (if length parts > 1 then Some (leave_group e sock (parts ! 1) st)
            else Some (send_message e sock (str ''Usage: /LEAVEGROUP <group_name>'') st))
         else if command = str ''/GROUP'' then
           (if length parts \<ge> 3
            then send_group_message d e
                   (str ''[GROUP:'' @ parts ! 1 @ str ''] '' @ uname @ str '': '' @ parts ! 2)
                   (parts ! 1) (Some sock) st
            else Some (send_message e sock (str ''Usage: /GROUP <group_name> <message>'') st))
         else if command = str ''/LISTFILES'' then Some (list_files e sock st)
         else if command = str ''/DOWNLOAD'' then
           (if length parts > 1
            then Some (handle_file_download e sock (parts ! 1)
                         (if length parts > 2 then upper e (parts ! 2) else str ''TCP'') st)
            else Some (send_message e sock (str ''Usage: /DOWNLOAD <filename> [TCP|UDP]'') st))
         else if command = str ''/LISTUSERS'' then Some (list_users e sock st)
         else if command = str ''/LISTGROUPS'' then Some (list_groups e sock st)
         else returned (broadcast_message d e (uname @ str '': '' @ message) (Some sock) st))"

text \<open>
  \<open>handle_client_message\<close> reads one message from the connection. \<open>None\<close> and the empty
  text both count as a disconnect. Every exception of the body ends in
  \<open>remove_client(sock)\<close>.
\<close>

definition handle_client_message :: "nat \<Rightarrow> env \<Rightarrow> sock \<Rightarrow> server \<Rightarrow> server option" where
  "handle_client_message d e sock st =
     (let st0 = st\<lparr>inbound := (inbound st)(sock := snd (receive_message (inbound st sock)))\<rparr>
      in case fst (receive_message (inbound st sock)) of
           None \<Rightarrow> remove_client d e sock st0
         | Some message \<Rightarrow>
             if message = [] then remove_client d e sock st0
             else (case map_of (clients st0) sock of
                     None \<Rightarrow> Some st0
                   | Some info \<Rightarrow>
                       (case dispatch d e sock (username info) message st0 of
                          None \<Rightarrow> None
                        | Some (Ok, st1) \<Rightarrow> Some st1
                        | Some (Raised x, st1) \<Rightarrow> remove_client d e sock st1)))"

section \<open>The client's datagram receive path (\<open>client.py\<close> 123-131, 188-222)\<close>

text \<open>
  The four attributes \<open>handle_download_start_udp\<close> sets. \<open>download_chunks\<close> is a
  dictionary from chunk number to payload.
\<close>

record download =
  download_filename :: ustr
  download_file_size :: nat
  download_chunks :: "(nat \<times> byte list) list"
  download_received :: nat

definition start_download :: "ustr \<Rightarrow> nat \<Rightarrow> download" where
  "start_download filename file_size =
     \<lparr>download_filename = filename, download_file_size = file_size,
      download_chunks = [], download_received = 0\<rparr>"

text \<open>
  What one call of \<open>self.udp_socket.recvfrom(1032)\<close> does: it returns a datagram (cut to
  1032 bytes), raises \<open>socket.timeout\<close> after one second, or raises something else.
  The events of a session are a list; when it is used up, nothing arrives any more and
  every further call times out.
\<close>

datatype event = Datagram "byte list" | Timeout | RecvError

fun next_event :: "event list \<Rightarrow> event \<times> event list" where
  "next_event [] = (Timeout, [])"
| "next_event (ev # evs) = (ev, evs)"

text \<open>Lines 197-203: the header is decoded and a chunk number not seen before is stored.\<close>

definition receive_chunk :: "byte list \<Rightarrow> download \<Rightarrow> download" where
  "receive_chunk data st =
     (if length data \<ge> 8
      then (case unpack_u32_u32 (take 8 data) of
              None \<Rightarrow> st
            | Some (chunk_num, chunk_len) \<Rightarrow>
                (let chunk_data = take chunk_len (drop 8 data)
                 in if map_of (download_chunks st) chunk_num = None
                    then st\<lparr>download_chunks := download_chunks st @ [(chunk_num, chunk_data)],
                            download_received := download_received st + length chunk_data\<rparr>
                    else st))
      else st)"

text \<open>
  The loop \<open>while self.download_received < self.download_file_size\<close>. \<open>None\<close> is a loop
  that never ends.
\<close>

partial_function (option) receive_loop :: "nat \<Rightarrow> event list \<Rightarrow> download \<Rightarrow> download option" where
  "receive_loop expected_chunks evs st =
     (if download_received st < download_file_size st
      then (case next_event evs of
              (Datagram data, rest) \<Rightarrow>
                receive_loop expected_chunks rest (receive_chunk (take 1032 data) st)
            | (Timeout, rest) \<Rightarrow>
                if length (download_chunks st) \<ge> expected_chunks then Some st
                else receive_loop expected_chunks rest st
            | (RecvError, rest) \<Rightarrow> Some st)
      else Some st)"

text \<open>Lines 213-217: the chunks present are written in the order of their numbers.\<close>

definition write_file :: "nat \<Rightarrow> (nat \<times> byte list) list \<Rightarrow> byte list" where
  "write_file expected_chunks chunks =
     concat (map (\<lambda>i. case map_of chunks i of None \<Rightarrow> [] | Some c \<Rightarrow> c) [0..<expected_chunks])"

text \<open>
  \<open>receive_file_udp\<close> returns the bytes written to the file and whether it reported
  success (\<open>download_received == download_file_size\<close>).
\<close>

definition receive_file_udp :: "event list \<Rightarrow> download \<Rightarrow> (byte list \<times> bool) option" where
  "receive_file_udp evs st =
     (let expected_chunks = (download_file_size st + 1023) div 1024
      in case receive_loop expected_chunks evs st of
           None \<Rightarrow> None
         | Some st1 \<Rightarrow>
             Some (write_file expected_chunks (download_chunks st1),
                   download_received st1 = download_file_size st1))"

section \<open>Notions used to state the properties\<close>

text \<open>
  The \<open>i\<close>-th chunk of a file and the datagram that carries it, the datagrams among the
  events of a session, and the number of chunks the receiver expects.
\<close>

definition chunk_at :: "byte list \<Rightarrow> nat \<Rightarrow> byte list" where
  "chunk_at file i = take 1024 (drop (i * 1024) file)"

definition datagram_of :: "byte list \<Rightarrow> nat \<Rightarrow> byte list" where
  "datagram_of file i = be32 i @ be32 (length (chunk_at file i)) @ chunk_at file i"

definition expected_count :: "byte list \<Rightarrow> nat" where
  "expected_count file = (length file + 1023) div 1024"

fun delivered :: "event list \<Rightarrow> byte list list" where
  "delivered [] = []"
| "delivered (Datagram d # evs) = d # delivered evs"
| "delivered (Timeout # evs) = delivered evs"
| "delivered (RecvError # evs) = delivered evs"

text \<open>
  What holds of a session's state while only datagrams of the sender arrive: the stored
  chunks are chunks of the file under their own numbers, no number is stored twice,
  and \<open>download_received\<close> is the sum of their lengths.
\<close>

definition session_inv :: "byte list \<Rightarrow> download \<Rightarrow> bool" where
  "session_inv file st =
     (download_file_size st = length file
      \<and> distinct (map fst (download_chunks st))
      \<and> list_all (\<lambda>(i, c). i < expected_count file \<and> c = chunk_at file i) (download_chunks st)
      \<and> download_received st
          = sum_list (map (\<lambda>(i, c). length c) (download_chunks st)))"

section \<open>Properties of the datagram receive path\<close>

subsection \<open>Duplicate chunks\<close>

lemma receive_chunk_size [simp]: "download_file_size (receive_chunk data st) = download_file_size st"
  by (simp add: receive_chunk_def Let_def split: option.splits prod.splits)

lemma receive_chunk_twice: "receive_chunk data (receive_chunk data st) = receive_chunk data st"
  by (simp add: receive_chunk_def Let_def split: option.splits prod.splits)

lemma receive_loop_done:
  "\<not> download_received st < download_file_size st \<Longrightarrow> receive_loop n evs st = Some st"
  by (subst receive_loop.simps) simp

lemma receive_loop_duplicate:
  "receive_loop n (pre @ Datagram d # Datagram d # post) st
   = receive_loop n (pre @ Datagram d # post) st"
proof (induction pre arbitrary: st)
  case Nil
  show ?case
  proof (cases "download_received st < download_file_size st")
    case False
    then show ?thesis by (simp add: receive_loop_done)
  next
    case True
    let ?st1 = "receive_chunk (take 1032 d) st"
    have l: "receive_loop n ([] @ Datagram d # Datagram d # post) st
             = receive_loop n (Datagram d # post) ?st1"
      using True by (subst receive_loop.simps) simp
    have r: "receive_loop n ([] @ Datagram d # post) st = receive_loop n post ?st1"
      using True by (subst receive_loop.simps) simp
    have "receive_loop n (Datagram d # post) ?st1 = receive_loop n post ?st1"
    proof (cases "download_received ?st1 < download_file_size ?st1")
      case True
      then show ?thesis
        by (subst receive_loop.simps) (simp add: receive_chunk_twice)
    next
      case False
      then show ?thesis by (simp add: receive_loop_done)
    qed
    with l r show ?thesis by simp
  qed
next
  case (Cons ev pre)
  show ?case
  proof (cases "download_received st < download_file_size st")
    case False
    then show ?thesis by (simp add: receive_loop_done)
  next
    case True
    have step: "receive_loop n (ev # evs) st =
        (case ev of
           Datagram data \<Rightarrow> receive_loop n evs (receive_chunk (take 1032 data) st)
         | Timeout \<Rightarrow> if length (download_chunks st) \<ge> n then Some st
                      else receive_loop n evs st
         | RecvError \<Rightarrow> Some st)" for evs
      using True by (subst receive_loop.simps) (simp split: event.splits)
    show ?thesis
      by (simp add: step Cons.IH split: event.splits)
  qed
qed

text \<open>
  Claim C9. A datagram whose chunk number is already in \<open>download_chunks\<close> changes
  neither the chunk map nor \<open>download_received\<close>; delivering any datagram twice in a row
  is the same as delivering it once, for the state after the datagram and for the
  file \<open>receive_file_udp\<close> writes.
\<close>

theorem C9_duplicate_chunk_ignored:
  "(unpack_u32_u32 (take 8 data) = Some (chunk_num, chunk_len)
      \<and> map_of (download_chunks st) chunk_num \<noteq> None
     \<longrightarrow> receive_chunk data st = st)
   \<and> receive_chunk data (receive_chunk data st) = receive_chunk data st
   \<and> receive_file_udp (pre @ Datagram d # Datagram d # post) st
     = receive_file_udp (pre @ Datagram d # post) st"
proof (intro conjI impI)
  assume "unpack_u32_u32 (take 8 data) = Some (chunk_num, chunk_len)
            \<and> map_of (download_chunks st) chunk_num \<noteq> None"
  then show "receive_chunk data st = st"
    by (auto simp: receive_chunk_def Let_def)
next
  show "receive_chunk data (receive_chunk data st) = receive_chunk data st"
    by (rule receive_chunk_twice)
next
  show "receive_file_udp (pre @ Datagram d # Datagram d # post) st
     = receive_file_udp (pre @ Datagram d # post) st"
    by (simp add: receive_file_udp_def receive_loop_duplicate)
qed

theorem C9_witness:
  "unpack_u32_u32 (take 8 [0, 0, 0, 0, 0, 0, 0, 1, 65]) = Some (0, 1)
   \<and> map_of (download_chunks \<lparr>download_filename = str ''a'', download_file_size = 2,
                  download_chunks = [(0, [65])], download_received = 1\<rparr>) 0 \<noteq> None
   \<and> receive_chunk [0, 0, 0, 0, 0, 0, 0, 1, 65]
        \<lparr>download_filename = str ''a'', download_file_size = 2,
         download_chunks = [(0, [65])], download_received = 1\<rparr>
      = \<lparr>download_filename = str ''a'', download_file_size = 2,
         download_chunks = [(0, [65])], download_received = 1\<rparr>"
  using C9_duplicate_chunk_ignored [of "[0, 0, 0, 0, 0, 0, 0, 1, 65]" 0 1
      "\<lparr>download_filename = str ''a'', download_file_size = 2,
         download_chunks = [(0, [65])], download_received = 1\<rparr>" "[]" "[]" "[]"]
  by (simp add: unpack_u32_u32_def)

end
